theory Spec2Isabelle
  imports Main "HOL-Library.AList" "HOL-Library.Char_ord" "HOL-Library.List_Lexorder"
begin

text \<open>
  A model of \<^verbatim>\<open>scripts/generate_cursor_plugin.py\<close>, which derives \<^verbatim>\<open>.cursor-plugin/plugin.json\<close>
  and \<^verbatim>\<open>.mcp.json\<close> from \<^verbatim>\<open>.claude-plugin/plugin.json\<close>, \<^verbatim>\<open>gemini-extension.json\<close> and the
  skill descriptors \<^verbatim>\<open>skills/*/SKILL.md\<close>.

  Every function of the script is a function here, under its own name. An exception is a
  value \<^verbatim>\<open>Inl\<close> of the result; the file system is a state that the functions which write
  take and return; the \<^verbatim>\<open>--check\<close> flag is a Boolean argument of \<^verbatim>\<open>main\<close>, and what \<^verbatim>\<open>main\<close>
  prints and its exit status are its outcome. The two patterns are run by a matcher for
  the constructs of \<^verbatim>\<open>re\<close> they use. Files hold text that decodes; permissions and symbolic
  links are not modelled.
\<close>

section \<open>Text\<close>

text \<open>
  Python text is modelled as \<^typ>\<open>string\<close>: every \<^typ>\<open>char\<close> stands for one code point
  below 256. The whitespace of \<^verbatim>\<open>str.strip\<close> and of the pattern \<^verbatim>\<open>\s\<close>, and the line
  boundaries of \<^verbatim>\<open>str.splitlines\<close>, are the ones Python has in that range.
\<close>

definition isspace :: "char \<Rightarrow> bool" where
  "isspace c \<longleftrightarrow> c \<in> set [CHR 0x09, CHR 0x0A, CHR 0x0B, CHR 0x0C, CHR 0x0D,
     CHR 0x1C, CHR 0x1D, CHR 0x1E, CHR 0x1F, CHR 0x20, CHR 0x85, CHR 0xA0]"

definition strip :: "string \<Rightarrow> string" where
  "strip s = rev (dropWhile isspace (rev (dropWhile isspace s)))"

definition is_linebreak :: "char \<Rightarrow> bool" where
  "is_linebreak c \<longleftrightarrow> c \<in> set [CHR 0x0A, CHR 0x0B, CHR 0x0C, CHR 0x0D,
     CHR 0x1C, CHR 0x1D, CHR 0x1E, CHR 0x85]"

text \<open>\<^verbatim>\<open>str.splitlines()\<close>: a carriage return followed by a line feed is one boundary, and
  a boundary at the very end opens no further line.\<close>

fun splitlines_from :: "string \<Rightarrow> string \<Rightarrow> string list" where
  "splitlines_from cur [] = (if cur = [] then [] else [cur])"
| "splitlines_from cur (c # cs) =
     (if c = CHR 0x0D \<and> cs \<noteq> [] \<and> hd cs = CHR 0x0A then cur # splitlines_from [] (tl cs)
      else if is_linebreak c then cur # splitlines_from [] cs
      else splitlines_from (cur @ [c]) cs)"

definition splitlines :: "string \<Rightarrow> string list" where
  "splitlines s = splitlines_from [] s"

section \<open>The fragment of Python's \<^verbatim>\<open>re\<close> the script uses\<close>

text \<open>
  A pattern is a sequence of nodes. The matcher is the backtracking one of \<^verbatim>\<open>re\<close>: it
  returns every way to match, in the order the engine tries them, so the match Python
  reports is the first of the list. A state is the position in the text, the text still
  to read, and the text of group 1 when it has been closed.
\<close>

datatype item =
    Caret                       \<comment> \<open>\<^verbatim>\<open>^\<close> without MULTILINE\<close>
  | Dollar                      \<comment> \<open>\<^verbatim>\<open>$\<close> without MULTILINE\<close>
  | One "char \<Rightarrow> bool"          \<comment> \<open>one character of a class\<close>
  | Star "char \<Rightarrow> bool"         \<comment> \<open>\<^verbatim>\<open>X*\<close>, greedy\<close>
  | StarLazy "char \<Rightarrow> bool"     \<comment> \<open>\<^verbatim>\<open>X*?\<close>\<close>

datatype node =
    I item
  | Opt "item list"             \<comment> \<open>\<^verbatim>\<open>(?:...)?\<close>, greedy\<close>
  | Grp "item list"             \<comment> \<open>\<^verbatim>\<open>(...)\<close>, the capturing group\<close>

type_synonym mstate = "nat \<times> string \<times> string option"

fun step_item :: "item \<Rightarrow> nat \<times> string \<Rightarrow> (nat \<times> string) list" where
  "step_item Caret (pos, rest) = (if pos = 0 then [(pos, rest)] else [])"
| "step_item Dollar (pos, rest) =
     (if rest = [] \<or> rest = [CHR 0x0A] then [(pos, rest)] else [])"
| "step_item (One P) (pos, rest) =
     (case rest of [] \<Rightarrow> [] | c # cs \<Rightarrow> if P c then [(Suc pos, cs)] else [])"
| "step_item (Star P) (pos, rest) =
     map (\<lambda>k. (pos + k, drop k rest)) (rev [0 ..< Suc (length (takeWhile P rest))])"
| "step_item (StarLazy P) (pos, rest) =
     map (\<lambda>k. (pos + k, drop k rest)) [0 ..< Suc (length (takeWhile P rest))]"

fun run_items :: "item list \<Rightarrow> nat \<times> string \<Rightarrow> (nat \<times> string) list" where
  "run_items [] s = [s]"
| "run_items (i # is) s = concat (map (run_items is) (step_item i s))"

fun run_nodes :: "node list \<Rightarrow> mstate \<Rightarrow> mstate list" where
  "run_nodes [] s = [s]"
| "run_nodes (I i # ns) (pos, rest, g) =
     concat (map (\<lambda>(p, r). run_nodes ns (p, r, g)) (step_item i (pos, rest)))"
| "run_nodes (Opt is # ns) (pos, rest, g) =
     concat (map (\<lambda>(p, r). run_nodes ns (p, r, g)) (run_items is (pos, rest) @ [(pos, rest)]))"
| "run_nodes (Grp is # ns) (pos, rest, g) =
     concat (map (\<lambda>(p, r). run_nodes ns (p, r, Some (take (p - pos) rest)))
       (run_items is (pos, rest)))"

text \<open>\<^verbatim>\<open>pattern.match(text)\<close>: the match starts at position 0.\<close>

definition re_match :: "node list \<Rightarrow> string \<Rightarrow> mstate option" where
  "re_match pat text = (case run_nodes pat (0, text, None) of [] \<Rightarrow> None | m # _ \<Rightarrow> Some m)"

text \<open>\<^verbatim>\<open>re.search(pattern, text)\<close>: the first start position, from the left, with a match.\<close>

fun search_from :: "node list \<Rightarrow> nat \<Rightarrow> string \<Rightarrow> mstate option" where
  "search_from pat pos [] =
     (case run_nodes pat (pos, [], None) of [] \<Rightarrow> None | m # _ \<Rightarrow> Some m)"
| "search_from pat pos (c # cs) =
     (case run_nodes pat (pos, c # cs, None) of
        [] \<Rightarrow> search_from pat (Suc pos) cs
      | m # _ \<Rightarrow> Some m)"

definition re_search :: "node list \<Rightarrow> string \<Rightarrow> mstate option" where
  "re_search pat text = search_from pat 0 text"

definition group1 :: "mstate \<Rightarrow> string" where
  "group1 m = (case snd (snd m) of None \<Rightarrow> [] | Some g \<Rightarrow> g)"

section \<open>Constants of the script\<close>

type_synonym path = "string list"

text \<open>Paths are lists of components below \<^verbatim>\<open>ROOT\<close>; the empty list is \<^verbatim>\<open>ROOT\<close> itself.\<close>

definition CLAUDE_PLUGIN_MANIFEST :: path where
  "CLAUDE_PLUGIN_MANIFEST = [''.claude-plugin'', ''plugin.json'']"

definition GEMINI_EXTENSION :: path where
  "GEMINI_EXTENSION = [''gemini-extension.json'']"

definition CURSOR_PLUGIN_DIR :: path where
  "CURSOR_PLUGIN_DIR = [''.cursor-plugin'']"

definition CURSOR_PLUGIN_MANIFEST :: path where
  "CURSOR_PLUGIN_MANIFEST = CURSOR_PLUGIN_DIR @ [''plugin.json'']"

definition CURSOR_MCP_CONFIG :: path where
  "CURSOR_MCP_CONFIG = [''.mcp.json'']"

definition DEFAULT_MCP_SERVER_NAME :: string where
  "DEFAULT_MCP_SERVER_NAME = ''huggingface-skills''"

definition DEFAULT_MCP_URL :: string where
  "DEFAULT_MCP_URL = ''https://huggingface.co/mcp?login''"

definition lower_alnum :: "char \<Rightarrow> bool" where
  "lower_alnum c \<longleftrightarrow> c \<in> set ''abcdefghijklmnopqrstuvwxyz0123456789''"

definition name_char :: "char \<Rightarrow> bool" where
  "name_char c \<longleftrightarrow> lower_alnum c \<or> c = CHR ''.'' \<or> c = CHR ''-''"

text \<open>\<^verbatim>\<open>^[a-z0-9](?:[a-z0-9.-]*[a-z0-9])?$\<close>\<close>

definition PLUGIN_NAME_RE :: "node list" where
  "PLUGIN_NAME_RE =
     [I Caret, I (One lower_alnum), Opt [Star name_char, One lower_alnum], I Dollar]"

text \<open>\<^verbatim>\<open>^---\s*\n(.*?)\n---\s*\<close> with DOTALL, so that the dot matches every character.\<close>

definition FRONTMATTER_RE :: "node list" where
  "FRONTMATTER_RE =
     [I Caret, I (One (\<lambda>c. c = CHR ''-'')), I (One (\<lambda>c. c = CHR ''-'')),
      I (One (\<lambda>c. c = CHR ''-'')), I (Star isspace), I (One (\<lambda>c. c = CHR 0x0A)),
      Grp [StarLazy (\<lambda>c. True)],
      I (One (\<lambda>c. c = CHR 0x0A)), I (One (\<lambda>c. c = CHR ''-'')),
      I (One (\<lambda>c. c = CHR ''-'')), I (One (\<lambda>c. c = CHR ''-'')), I (Star isspace)]"

section \<open>Documents\<close>

text \<open>
  What \<^verbatim>\<open>json.loads\<close> returns. A Python \<^verbatim>\<open>dict\<close> keeps its keys in insertion order, so a JSON
  object is an association list; the first binding of a key is the one that counts.
  A float is \<open>m * 2 ^ e\<close>, an infinity or a NaN; only whether it is zero matters here.
\<close>

datatype pyfloat = Finite int int | Infinity bool | NaN

datatype json =
    JNull
  | JBool bool
  | JInt int
  | JFloat pyfloat
  | JStr string
  | JArr "json list"
  | JObj "(string \<times> json) list"

text \<open>Python's truth value of a loaded document, as \<^verbatim>\<open>or\<close> and \<^verbatim>\<open>not\<close> test it.\<close>

fun truthy :: "json \<Rightarrow> bool" where
  "truthy JNull = False"
| "truthy (JBool b) = b"
| "truthy (JInt i) = (i \<noteq> 0)"
| "truthy (JFloat (Finite m e)) = (m \<noteq> 0)"
| "truthy (JFloat (Infinity s)) = True"
| "truthy (JFloat NaN) = True"
| "truthy (JStr s) = (s \<noteq> [])"
| "truthy (JArr xs) = (xs \<noteq> [])"
| "truthy (JObj kvs) = (kvs \<noteq> [])"

text \<open>\<^verbatim>\<open>d.get(key)\<close>: the value, or \<^verbatim>\<open>None\<close>, which loads as \<^const>\<open>JNull\<close>.\<close>

definition dict_get :: "(string \<times> json) list \<Rightarrow> string \<Rightarrow> json" where
  "dict_get d key = (case map_of d key of None \<Rightarrow> JNull | Some v \<Rightarrow> v)"

text \<open>\<^verbatim>\<open>a or b\<close>\<close>

definition py_or :: "json \<Rightarrow> json \<Rightarrow> json" where
  "py_or a b = (if truthy a then a else b)"

section \<open>Errors and the file system\<close>

datatype value_error =
    MissingName            \<comment> \<open>".claude-plugin/plugin.json must define a non-empty 'name'"\<close>
  | InvalidPluginName string \<comment> \<open>"Invalid plugin name in .claude-plugin/plugin.json: ..."\<close>
  | NoSkills               \<comment> \<open>"No skills discovered under skills/*/SKILL.md"\<close>

datatype error =
    FileNotFoundError
  | JSONDecodeError
  | AttributeError
  | ValueError value_error
  | IsADirectoryError
  | NotADirectoryError
  | FileExistsError

datatype fsnode = File string | Dir

datatype event = Mkdir path | WriteText path string

text \<open>
  The tree below \<^verbatim>\<open>ROOT\<close> is an association list from paths to what is there, and
  \<^verbatim>\<open>ROOT\<close> itself is a directory. Every file holds text. The events are the changes the
  run has made, in order.
\<close>

record world =
  nodes :: "(path \<times> fsnode) list"
  events :: "event list"

definition path_exists :: "world \<Rightarrow> path \<Rightarrow> bool" where
  "path_exists w p \<longleftrightarrow> p = [] \<or> map_of (nodes w) p \<noteq> None"

definition is_dir :: "world \<Rightarrow> path \<Rightarrow> bool" where
  "is_dir w p \<longleftrightarrow> p = [] \<or> map_of (nodes w) p = Some Dir"

definition read_text :: "world \<Rightarrow> path \<Rightarrow> error + string" where
  "read_text w p =
     (if p = [] then Inl IsADirectoryError
      else case map_of (nodes w) p of
        None \<Rightarrow> Inl FileNotFoundError
      | Some Dir \<Rightarrow> Inl IsADirectoryError
      | Some (File t) \<Rightarrow> Inr t)"

definition create_dir :: "world \<Rightarrow> path \<Rightarrow> world" where
  "create_dir w p =
     w\<lparr>nodes := AList.update p Dir (nodes w), events := events w @ [Mkdir p]\<rparr>"

text \<open>\<^verbatim>\<open>Path.mkdir(parents=True, exist_ok=True)\<close>\<close>

function mkdir_parents :: "world \<Rightarrow> path \<Rightarrow> error + world" where
  "mkdir_parents w p =
     (if is_dir w p then Inr w
      else if path_exists w p then Inl FileExistsError
      else if is_dir w (butlast p) then Inr (create_dir w p)
      else if path_exists w (butlast p) then Inl NotADirectoryError
      else case mkdir_parents w (butlast p) of
             Inl e \<Rightarrow> Inl e
           | Inr w' \<Rightarrow> Inr (create_dir w' p))"
  by pat_completeness auto
termination
  by (relation "measure (\<lambda>(w, p). length p)") (auto simp: is_dir_def)

text \<open>\<^verbatim>\<open>Path.write_text(content)\<close>\<close>

definition write_text :: "world \<Rightarrow> path \<Rightarrow> string \<Rightarrow> error + world" where
  "write_text w p content =
     (if is_dir w p then Inl IsADirectoryError
      else if \<not> is_dir w (butlast p) then
        (if path_exists w (butlast p) then Inl NotADirectoryError else Inl FileNotFoundError)
      else Inr (w\<lparr>nodes := AList.update p (File content) (nodes w),
                  events := events w @ [WriteText p content]\<rparr>))"

section \<open>The script\<close>

text \<open>
  \<^verbatim>\<open>json.loads\<close> and \<^verbatim>\<open>json.dumps(data, indent=2, ensure_ascii=False)\<close> are the standard
  library's; the functions below take them as \<open>loads\<close> (\<^const>\<open>None\<close> when it raises) and
  \<open>dumps\<close>.
\<close>

definition load_json :: "(string \<Rightarrow> json option) \<Rightarrow> world \<Rightarrow> path \<Rightarrow> error + json" where
  "load_json loads w p =
     (if \<not> path_exists w p then Inl FileNotFoundError
      else case read_text w p of
        Inl e \<Rightarrow> Inl e
      | Inr t \<Rightarrow> (case loads t of None \<Rightarrow> Inl JSONDecodeError | Some j \<Rightarrow> Inr j))"

text \<open>\<^verbatim>\<open>line.split(":", 1)\<close> for a line that has a colon: the text before the first colon
  and the text after it.\<close>

definition split_colon :: "string \<Rightarrow> string \<times> string" where
  "split_colon line =
     (takeWhile (\<lambda>c. c \<noteq> CHR '':'') line, tl (dropWhile (\<lambda>c. c \<noteq> CHR '':'') line))"

text \<open>The loop over the lines of the header block.\<close>

fun parse_lines :: "string list \<Rightarrow> (string \<rightharpoonup> string) \<Rightarrow> (string \<rightharpoonup> string)" where
  "parse_lines [] data = data"
| "parse_lines (line # lines) data =
     (if CHR '':'' \<notin> set line then parse_lines lines data
      else (case split_colon line of
              (key, value) \<Rightarrow> parse_lines lines (data(strip key \<mapsto> strip value))))"

definition parse_frontmatter :: "string \<Rightarrow> (string \<rightharpoonup> string)" where
  "parse_frontmatter text =
     (case re_search FRONTMATTER_RE text of
        None \<Rightarrow> Map.empty
      | Some m \<Rightarrow> parse_lines (splitlines (group1 m)) Map.empty)"

text \<open>\<^verbatim>\<open>ROOT.glob("skills/*/SKILL.md")\<close>, sorted.\<close>

definition is_skill_md :: "path \<Rightarrow> bool" where
  "is_skill_md p = (case p of [a, d, b] \<Rightarrow> a = ''skills'' \<and> b = ''SKILL.md'' | _ \<Rightarrow> False)"

definition skill_files :: "world \<Rightarrow> path list" where
  "skill_files w = sort (remdups (filter is_skill_md (map fst (nodes w))))"

fun collect_from :: "world \<Rightarrow> path list \<Rightarrow> string list \<Rightarrow> error + string list" where
  "collect_from w [] skills = Inr skills"
| "collect_from w (skill_md # rest) skills =
     (case read_text w skill_md of
        Inl e \<Rightarrow> Inl e
      | Inr t \<Rightarrow>
          (let name = strip (case parse_frontmatter t ''name'' of None \<Rightarrow> [] | Some n \<Rightarrow> n)
           in if name = [] then collect_from w rest skills
              else collect_from w rest (skills @ [name])))"

definition collect_skills :: "world \<Rightarrow> error + string list" where
  "collect_skills w = collect_from w (skill_files w) []"

definition validate_plugin_name :: "string \<Rightarrow> error + unit" where
  "validate_plugin_name name =
     (case re_match PLUGIN_NAME_RE name of
        None \<Rightarrow> Inl (ValueError (InvalidPluginName name))
      | Some m \<Rightarrow> Inr ())"

definition OPTIONAL_FIELDS :: "string list" where
  "OPTIONAL_FIELDS = [''description'', ''version'', ''author'', ''homepage'',
     ''repository'', ''license'', ''keywords'', ''logo'']"

text \<open>The loop that copies the optional fields: \<^verbatim>\<open>if key in src: manifest[key] = src[key]\<close>.\<close>

fun copy_fields :: "string list \<Rightarrow> (string \<times> json) list \<Rightarrow> (string \<times> json) list
    \<Rightarrow> (string \<times> json) list" where
  "copy_fields [] src manifest = manifest"
| "copy_fields (key # keys) src manifest =
     (case map_of src key of
        None \<Rightarrow> copy_fields keys src manifest
      | Some v \<Rightarrow> copy_fields keys src (AList.update key v manifest))"

definition build_cursor_plugin_manifest ::
    "(string \<Rightarrow> json option) \<Rightarrow> world \<Rightarrow> error + (string \<times> json) list" where
  "build_cursor_plugin_manifest loads w =
     (case load_json loads w CLAUDE_PLUGIN_MANIFEST of
        Inl e \<Rightarrow> Inl e
      | Inr (JObj src) \<Rightarrow>
          (case dict_get src ''name'' of
             JStr name \<Rightarrow>
               if name = [] then Inl (ValueError MissingName)
               else (case validate_plugin_name name of
                  Inl e \<Rightarrow> Inl e
                | Inr _ \<Rightarrow>
                    (case collect_skills w of
                       Inl e \<Rightarrow> Inl e
                     | Inr skills \<Rightarrow>
                         if skills = [] then Inl (ValueError NoSkills)
                         else Inr (copy_fields OPTIONAL_FIELDS src
                           [(''name'', JStr name), (''skills'', JStr ''skills''),
                            (''mcpServers'', JStr ''.mcp.json'')])))
           | _ \<Rightarrow> Inl (ValueError MissingName))
      | Inr _ \<Rightarrow> Inl AttributeError)"

definition resolve_url :: "(string \<times> json) list \<Rightarrow> string" where
  "resolve_url server_cfg =
     (case py_or (dict_get server_cfg ''url'')
             (py_or (dict_get server_cfg ''httpUrl'') (JStr DEFAULT_MCP_URL)) of
        JStr url \<Rightarrow> if strip url = [] then DEFAULT_MCP_URL else url
      | _ \<Rightarrow> DEFAULT_MCP_URL)"

definition extract_mcp_from_gemini ::
    "(string \<Rightarrow> json option) \<Rightarrow> world \<Rightarrow> error + string \<times> string" where
  "extract_mcp_from_gemini loads w =
     (if \<not> path_exists w GEMINI_EXTENSION then Inr (DEFAULT_MCP_SERVER_NAME, DEFAULT_MCP_URL)
      else case load_json loads w GEMINI_EXTENSION of
        Inl e \<Rightarrow> Inl e
      | Inr (JObj data) \<Rightarrow>
          (case dict_get data ''mcpServers'' of
             JObj servers \<Rightarrow>
               (case servers of
                  [] \<Rightarrow> Inr (DEFAULT_MCP_SERVER_NAME, DEFAULT_MCP_URL)
                | (server_name, server_cfg) # _ \<Rightarrow>
                    (case server_cfg of
                       JObj cfg \<Rightarrow> Inr (server_name, resolve_url cfg)
                     | _ \<Rightarrow> Inr (DEFAULT_MCP_SERVER_NAME, DEFAULT_MCP_URL)))
           | _ \<Rightarrow> Inr (DEFAULT_MCP_SERVER_NAME, DEFAULT_MCP_URL))
      | Inr _ \<Rightarrow> Inl AttributeError)"

definition build_mcp_config ::
    "(string \<Rightarrow> json option) \<Rightarrow> world \<Rightarrow> error + (string \<times> json) list" where
  "build_mcp_config loads w =
     (case extract_mcp_from_gemini loads w of
        Inl e \<Rightarrow> Inl e
      | Inr (server_name, url) \<Rightarrow>
          Inr [(''mcpServers'', JObj [(server_name, JObj [(''url'', JStr url)])])])"

definition render_json :: "(json \<Rightarrow> string) \<Rightarrow> (string \<times> json) list \<Rightarrow> string" where
  "render_json dumps data = dumps (JObj data) @ [CHR 0x0A]"

definition write_or_check :: "world \<Rightarrow> path \<Rightarrow> string \<Rightarrow> bool \<Rightarrow> (error + bool) \<times> world" where
  "write_or_check w p content check =
     (case (if path_exists w p then map_sum id Some (read_text w p) else Inr None) of
        Inl e \<Rightarrow> (Inl e, w)
      | Inr current \<Rightarrow>
          if current = Some content then (Inr True, w)
          else if check then (Inr False, w)
          else (case mkdir_parents w (butlast p) of
                  Inl e \<Rightarrow> (Inl e, w)
                | Inr w1 \<Rightarrow>
                    (case write_text w1 p content of
                       Inl e \<Rightarrow> (Inl e, w1)
                     | Inr w2 \<Rightarrow> (Inr True, w2))))"

datatype outcome =
    Wrote                  \<comment> \<open>the two "Wrote ..." lines, exit status 0\<close>
  | UpToDate               \<comment> \<open>"Cursor plugin artifacts are up to date.", exit status 0\<close>
  | OutOfDate "path list"  \<comment> \<open>the outdated paths on stderr, \<^verbatim>\<open>sys.exit(1)\<close>\<close>

definition main ::
    "(string \<Rightarrow> json option) \<Rightarrow> (json \<Rightarrow> string) \<Rightarrow> bool \<Rightarrow> world \<Rightarrow> (error + outcome) \<times> world" where
  "main loads dumps check w =
     (case build_cursor_plugin_manifest loads w of
        Inl e \<Rightarrow> (Inl e, w)
      | Inr manifest \<Rightarrow>
     (case build_mcp_config loads w of
        Inl e \<Rightarrow> (Inl e, w)
      | Inr mcp \<Rightarrow>
     (case write_or_check w CURSOR_PLUGIN_MANIFEST (render_json dumps manifest) check of
        (Inl e, w1) \<Rightarrow> (Inl e, w1)
      | (Inr ok_plugin, w1) \<Rightarrow>
     (case write_or_check w1 CURSOR_MCP_CONFIG (render_json dumps mcp) check of
        (Inl e, w2) \<Rightarrow> (Inl e, w2)
      | (Inr ok_mcp, w2) \<Rightarrow>
          if check then
            (let outdated = (if \<not> ok_plugin then [CURSOR_PLUGIN_MANIFEST] else []) @
                            (if \<not> ok_mcp then [CURSOR_MCP_CONFIG] else [])
             in if outdated \<noteq> [] then (Inr (OutOfDate outdated), w2)
                else (Inr UpToDate, w2))
          else (Inr Wrote, w2)))))"

section \<open>The specification's wording\<close>

text \<open>
  A plugin name in the words of the specification: not empty, a lowercase alphanumeric
  character first and last, and nothing but lowercase alphanumerics, \<^verbatim>\<open>.\<close> and \<^verbatim>\<open>-\<close>.
\<close>

definition documented_name :: "string \<Rightarrow> bool" where
  "documented_name n \<longleftrightarrow>
     n \<noteq> [] \<and> lower_alnum (hd n) \<and> lower_alnum (last n) \<and> list_all name_char n"

text \<open>Where \<^verbatim>\<open>$\<close> matches: at the end of the text, and before a line feed that ends it.\<close>

definition at_end :: "string \<Rightarrow> bool" where
  "at_end r \<longleftrightarrow> r = [] \<or> r = ''\<newline>''"

text \<open>
  The URL in the words of the specification: the \<^verbatim>\<open>url\<close> field if it yields a non-empty
  string, otherwise the \<^verbatim>\<open>httpUrl\<close> field if that yields a non-empty string, otherwise the
  default.
\<close>

definition field_string :: "(string \<times> json) list \<Rightarrow> string \<Rightarrow> string option" where
  "field_string cfg key =
     (case map_of cfg key of Some (JStr s) \<Rightarrow> if s = [] then None else Some s | _ \<Rightarrow> None)"

definition documented_url :: "(string \<times> json) list \<Rightarrow> string" where
  "documented_url cfg =
     (case field_string cfg ''url'' of
        Some u \<Rightarrow> u
      | None \<Rightarrow> (case field_string cfg ''httpUrl'' of Some h \<Rightarrow> h | None \<Rightarrow> DEFAULT_MCP_URL))"

section \<open>Sample inputs\<close>

text \<open>A stand-in for \<^verbatim>\<open>json.loads\<close> on the texts of the examples below, and for \<^verbatim>\<open>json.dumps\<close>.\<close>

definition sample_loads :: "string \<Rightarrow> json option" where
  \<open>sample_loads = map_of
     [(''{"name": "hf-skills", "license": "Apache-2.0"}'',
         JObj [(''name'', JStr ''hf-skills''), (''license'', JStr ''Apache-2.0'')]),
      (''{"name": "x"}'', JObj [(''name'', JStr ''x'')]),
      (''{"mcpServers": {"hf": "https://example.org/mcp"}}'',
         JObj [(''mcpServers'', JObj [(''hf'', JStr ''https://example.org/mcp'')])]),
      (''{"mcpServers": {"hf": {"httpUrl": "https://example.org/mcp"}}}'',
         JObj [(''mcpServers'',
           JObj [(''hf'', JObj [(''httpUrl'', JStr ''https://example.org/mcp'')])])]),
      (''{"mcpServers": {"hf": {"url": "https://a.example/mcp", "httpUrl": "https://b.example/mcp"}}}'',
         JObj [(''mcpServers'',
           JObj [(''hf'', JObj [(''url'', JStr ''https://a.example/mcp''),
                                (''httpUrl'', JStr ''https://b.example/mcp'')])])]),
      (''{"mcpServers": {"hf": {"url": 5, "httpUrl": "https://example.org/mcp"}}}'',
         JObj [(''mcpServers'',
           JObj [(''hf'', JObj [(''url'', JInt 5),
                                (''httpUrl'', JStr ''https://example.org/mcp'')])])]),
      (''{"mcpServers": {"hf": {"url": " ", "httpUrl": "https://example.org/mcp"}}}'',
         JObj [(''mcpServers'',
           JObj [(''hf'', JObj [(''url'', JStr '' ''),
                                (''httpUrl'', JStr ''https://example.org/mcp'')])])])]\<close>

definition sample_manifest_text :: string where
  \<open>sample_manifest_text =
     ''{\<newline>  "name": "hf-skills",\<newline>  "skills": "skills",\<newline>  "mcpServers": ".mcp.json",\<newline>  "license": "Apache-2.0"\<newline>}''\<close>

definition sample_mcp_text :: string where
  \<open>sample_mcp_text =
     ''{\<newline>  "mcpServers": {\<newline>    "huggingface-skills": {\<newline>      "url": "https://huggingface.co/mcp?login"\<newline>    }\<newline>  }\<newline>}''\<close>

definition sample_dumps :: "json \<Rightarrow> string" where
  "sample_dumps j =
     (if j = JObj [(''name'', JStr ''hf-skills''), (''skills'', JStr ''skills''),
                   (''mcpServers'', JStr ''.mcp.json''), (''license'', JStr ''Apache-2.0'')]
      then sample_manifest_text
      else if j = JObj [(''mcpServers'', JObj [(''huggingface-skills'',
                   JObj [(''url'', JStr ''https://huggingface.co/mcp?login'')])])]
      then sample_mcp_text
      else [])"

definition world_of :: "(path \<times> fsnode) list \<Rightarrow> world" where
  "world_of ns = \<lparr>nodes = ns, events = []\<rparr>"

definition sample_skill_text :: string where
  "sample_skill_text = ''---\<newline>name: alpha\<newline>---\<newline>''"

definition sample_world :: world where
  \<open>sample_world = world_of
     [(CLAUDE_PLUGIN_MANIFEST, File ''{"name": "hf-skills", "license": "Apache-2.0"}''),
      ([''skills'', ''alpha'', ''SKILL.md''], File sample_skill_text)]\<close>

definition sample_world_bad_config :: world where
  "sample_world_bad_config = world_of (nodes sample_world @ [(GEMINI_EXTENSION, File ''{oops'')])"

definition sample_world_no_name :: world where
  \<open>sample_world_no_name = world_of
     [(CLAUDE_PLUGIN_MANIFEST, File ''{"name": "hf-skills", "license": "Apache-2.0"}''),
      ([''skills'', ''alpha'', ''SKILL.md''], File ''---\<newline>title: alpha\<newline>---\<newline>''),
      ([''skills'', ''beta'', ''SKILL.md''], File ''# beta'')]\<close>

definition sample_header_text :: string where
  "sample_header_text =
     ''---\<newline>name: foo\<newline>junk\<newline>name:  bar:baz \<newline>---\<newline>body''"

text \<open>The metadata \<^verbatim>\<open>{"name": "a\n"}\<close>, whose name is the letter and a line feed.\<close>

definition sample_newline_name_text :: string where
  \<open>sample_newline_name_text = ''{"name": "a'' @ [CHR 0x5C] @ ''n"}''\<close>

definition sample_loads_newline_name :: "string \<Rightarrow> json option" where
  "sample_loads_newline_name =
     map_of [(sample_newline_name_text, JObj [(''name'', JStr ''a\<newline>'')])]"

definition sample_world_newline_name :: world where
  "sample_world_newline_name = world_of
     [(CLAUDE_PLUGIN_MANIFEST, File sample_newline_name_text),
      ([''skills'', ''alpha'', ''SKILL.md''], File sample_skill_text)]"

text \<open>The state \<^const>\<open>sample_world\<close> is in after a run in write mode.\<close>

definition sample_world_written :: world where
  "sample_world_written =
     \<lparr>nodes = nodes sample_world @
        [(CURSOR_PLUGIN_DIR, Dir),
         (CURSOR_PLUGIN_MANIFEST, File (sample_manifest_text @ ''\<newline>'')),
         (CURSOR_MCP_CONFIG, File (sample_mcp_text @ ''\<newline>''))],
      events =
        [Mkdir CURSOR_PLUGIN_DIR,
         WriteText CURSOR_PLUGIN_MANIFEST (sample_manifest_text @ ''\<newline>''),
         WriteText CURSOR_MCP_CONFIG (sample_mcp_text @ ''\<newline>'')]\<rparr>"

section \<open>Inputs and outputs\<close>

text \<open>
  The paths a run may create or write, and the relation between two states that hold the
  same thing at every other path.
\<close>

definition outputs :: "path set" where
  "outputs = {CURSOR_PLUGIN_DIR, CURSOR_PLUGIN_MANIFEST, CURSOR_MCP_CONFIG}"

definition same_inputs :: "world \<Rightarrow> world \<Rightarrow> bool" where
  "same_inputs w w' \<longleftrightarrow> (\<forall>q. q \<notin> outputs \<longrightarrow> map_of (nodes w') q = map_of (nodes w) q)"

section \<open>Properties\<close>

declare mkdir_parents.simps [simp del]

subsection \<open>Name validation\<close>

lemmas name_re_defs =
  validate_plugin_name_def re_match_def PLUGIN_NAME_RE_def lower_alnum_def name_char_def

lemma validate_accepts_example: "validate_plugin_name ''my-plugin.v2'' = Inr ()"
  by (simp add: name_re_defs)

lemma validate_rejects_uppercase:
  "validate_plugin_name ''My_Plugin'' = Inl (ValueError (InvalidPluginName ''My_Plugin''))"
  by (simp add: name_re_defs)

lemma validate_rejects_empty:
  "validate_plugin_name [] = Inl (ValueError (InvalidPluginName []))"
  by (simp add: name_re_defs)

lemma run_one:
  "run_items [One Q] (p, r) = (if r \<noteq> [] \<and> Q (hd r) then [(Suc p, tl r)] else [])"
  by (cases r) auto

lemma drop_hd_tl:
  "k < length cs \<Longrightarrow> hd (drop k cs) = cs ! k \<and> tl (drop k cs) = drop (Suc k) cs"
  by (simp add: hd_drop_conv_nth drop_Suc tl_drop)

lemma star_then_one:
  "(\<exists>s \<in> set (run_items [Star P, One Q] (pos, cs)). R (snd s)) \<longleftrightarrow>
   (\<exists>k. k \<le> length (takeWhile P cs) \<and> k < length cs \<and> Q (cs ! k) \<and> R (drop (Suc k) cs))"
proof -
  have "run_items [Star P, One Q] (pos, cs) =
      concat (map (\<lambda>k. run_items [One Q] (pos + k, drop k cs))
        (rev [0 ..< Suc (length (takeWhile P cs))]))"
    by (simp only: run_items.simps(2) step_item.simps map_map comp_def)
  then have "(\<exists>s \<in> set (run_items [Star P, One Q] (pos, cs)). R (snd s)) \<longleftrightarrow>
      (\<exists>k. k \<le> length (takeWhile P cs) \<and> drop k cs \<noteq> [] \<and> Q (hd (drop k cs)) \<and>
           R (tl (drop k cs)))"
    by (auto simp: run_one less_Suc_eq_le simp del: upt_Suc run_items.simps split: if_splits)
  also have "\<dots> \<longleftrightarrow>
      (\<exists>k. k \<le> length (takeWhile P cs) \<and> k < length cs \<and> Q (cs ! k) \<and> R (drop (Suc k) cs))"
    by (auto simp: drop_hd_tl)
  finally show ?thesis .
qed


lemma concat_map_nonempty: "concat (map f xs) \<noteq> [] \<longleftrightarrow> (\<exists>x \<in> set xs. f x \<noteq> [])"
  by (induction xs) auto

lemma run_dollar:
  "run_nodes [I Dollar] (p, r, g) = (if at_end r then [(p, r, g)] else [])"
  by (simp add: at_end_def)

lemma opt_then_dollar:
  "run_nodes [Opt is, I Dollar] (p, r, g) \<noteq> [] \<longleftrightarrow>
     (\<exists>s \<in> set (run_items is (p, r)). at_end (snd s)) \<or> at_end r"
  by (simp only: run_nodes.simps(3) concat_map_nonempty)
     (force simp: run_dollar simp del: run_nodes.simps split: if_splits)

lemma name_re_matches:
  "re_match PLUGIN_NAME_RE n \<noteq> None \<longleftrightarrow>
     n \<noteq> [] \<and> lower_alnum (hd n) \<and>
     (at_end (tl n) \<or>
      (\<exists>k. k \<le> length (takeWhile name_char (tl n)) \<and> k < length (tl n) \<and>
           lower_alnum (tl n ! k) \<and> at_end (drop (Suc k) (tl n))))"
proof (cases n)
  case Nil
  then show ?thesis by (simp add: re_match_def PLUGIN_NAME_RE_def)
next
  case (Cons c cs)
  have "re_match PLUGIN_NAME_RE n \<noteq> None \<longleftrightarrow>
      lower_alnum c \<and>
      run_nodes [Opt [Star name_char, One lower_alnum], I Dollar] (Suc 0, cs, None) \<noteq> []"
    unfolding re_match_def PLUGIN_NAME_RE_def Cons
    by (simp del: run_nodes.simps(3) run_items.simps split: list.splits)
  then show ?thesis
    unfolding opt_then_dollar star_then_one using Cons by auto
qed


lemma take_within_takeWhile:
  "k \<le> length (takeWhile P xs) \<Longrightarrow> list_all P (take k xs)"
proof -
  assume k: "k \<le> length (takeWhile P xs)"
  have "take k xs = take k (takeWhile P xs @ dropWhile P xs)" by simp
  also have "\<dots> = take k (takeWhile P xs)" using k by (simp del: takeWhile_dropWhile_id)
  finally have "set (take k xs) \<subseteq> set (takeWhile P xs)" by (simp add: set_take_subset)
  then show ?thesis by (auto simp: list_all_iff dest: set_takeWhileD)
qed

lemma lower_alnum_name_char: "lower_alnum c \<Longrightarrow> name_char c"
  by (simp add: name_char_def)

lemma newline_not_name_char: "\<not> name_char CHR 0x0A"
  by (simp add: name_char_def lower_alnum_def)

lemma tail_shape_sound:
  assumes "lower_alnum c" and "k \<le> length (takeWhile name_char cs)" and "k < length cs"
    and "lower_alnum (cs ! k)"
  shows "documented_name (c # take k cs @ [cs ! k])"
  using assms take_within_takeWhile [OF assms(2)]
  by (simp add: documented_name_def lower_alnum_name_char)

lemma tail_shape_complete:
  assumes "documented_name (c # cs)" and "cs \<noteq> []"
  shows "length cs - 1 \<le> length (takeWhile name_char (cs @ r)) \<and> length cs - 1 < length (cs @ r) \<and>
         lower_alnum ((cs @ r) ! (length cs - 1)) \<and> drop (Suc (length cs - 1)) (cs @ r) = r"
proof -
  from assms have a: "list_all name_char cs" and l: "lower_alnum (last cs)"
    by (simp_all add: documented_name_def)
  from a have "takeWhile name_char (cs @ r) = cs @ takeWhile name_char r"
    by (simp add: takeWhile_append2 list_all_iff)
  then have 1: "length cs - 1 \<le> length (takeWhile name_char (cs @ r))"
    by simp
  have 2: "length cs - 1 < length (cs @ r)"
    using assms(2) by (cases cs) simp_all
  have 3: "lower_alnum ((cs @ r) ! (length cs - 1))"
    using assms(2) l by (simp add: nth_append last_conv_nth)
  have 4: "drop (Suc (length cs - 1)) (cs @ r) = r"
    using assms(2) by (cases cs) simp_all
  from 1 2 3 4 show ?thesis by blast
qed

text \<open>
  What the script accepts: the names of the specification, and each of them followed by one
  line feed.
\<close>

lemma validate_plugin_name_iff:
  "validate_plugin_name n = Inr () \<longleftrightarrow>
     documented_name n \<or> (\<exists>m. n = m @ ''\<newline>'' \<and> documented_name m)"
proof -
  have v: "validate_plugin_name n = Inr () \<longleftrightarrow> re_match PLUGIN_NAME_RE n \<noteq> None"
    by (auto simp: validate_plugin_name_def split: option.splits)
  show ?thesis
  proof (cases n)
    case Nil
    then show ?thesis unfolding v name_re_matches by (simp add: documented_name_def)
  next
    case (Cons c cs)
    show ?thesis
    proof
      assume "validate_plugin_name n = Inr ()"
      then have "re_match PLUGIN_NAME_RE n \<noteq> None" using v by blast
      then have "n \<noteq> [] \<and> lower_alnum (hd n) \<and>
         (at_end (tl n) \<or>
          (\<exists>k. k \<le> length (takeWhile name_char (tl n)) \<and> k < length (tl n) \<and>
               lower_alnum (tl n ! k) \<and> at_end (drop (Suc k) (tl n))))"
        unfolding name_re_matches .
      then have c: "lower_alnum c"
        and t: "at_end cs \<or> (\<exists>k. k \<le> length (takeWhile name_char cs) \<and> k < length cs \<and>
           lower_alnum (cs ! k) \<and> at_end (drop (Suc k) cs))"
        using Cons by simp_all
      from t show "documented_name n \<or> (\<exists>m. n = m @ ''\<newline>'' \<and> documented_name m)"
      proof
        assume "at_end cs"
        with c Cons show ?thesis
          by (auto simp: at_end_def documented_name_def lower_alnum_name_char)
      next
        assume "\<exists>k. k \<le> length (takeWhile name_char cs) \<and> k < length cs \<and>
           lower_alnum (cs ! k) \<and> at_end (drop (Suc k) cs)"
        then obtain k where k: "k \<le> length (takeWhile name_char cs)" "k < length cs"
          "lower_alnum (cs ! k)" and e: "at_end (drop (Suc k) cs)" by blast
        have d: "documented_name (c # take k cs @ [cs ! k])"
          using c k by (rule tail_shape_sound)
        have "cs = take k cs @ cs ! k # drop (Suc k) cs"
          using k(2) by (simp add: id_take_nth_drop [symmetric])
        then have "n = (c # take k cs @ [cs ! k]) @ drop (Suc k) cs"
          using Cons by simp
        with d e show ?thesis
          unfolding at_end_def by (metis append_Nil2)
      qed
    next
      assume "documented_name n \<or> (\<exists>m. n = m @ ''\<newline>'' \<and> documented_name m)"
      then show "validate_plugin_name n = Inr ()"
      proof
        assume d: "documented_name n"
        then have c: "lower_alnum c" using Cons by (simp add: documented_name_def)
        show ?thesis
        proof (cases "cs = []")
          case True
          with c Cons show ?thesis unfolding v name_re_matches by (simp add: at_end_def)
        next
          case False
          from tail_shape_complete [OF d [unfolded Cons] False, of "[]"] c Cons
          show ?thesis unfolding v name_re_matches at_end_def by auto
        qed
      next
        assume "\<exists>m. n = m @ ''\<newline>'' \<and> documented_name m"
        then obtain m where m: "n = m @ ''\<newline>''" and d: "documented_name m" by blast
        from d have "m \<noteq> []" by (simp add: documented_name_def)
        with m Cons obtain cs' where m': "m = c # cs'" and cs: "cs = cs' @ ''\<newline>''"
          by (cases m) auto
        from d m' have c: "lower_alnum c" by (simp add: documented_name_def)
        show ?thesis
        proof (cases "cs' = []")
          case True
          with c cs Cons show ?thesis unfolding v name_re_matches by (simp add: at_end_def)
        next
          case False
          from tail_shape_complete [OF d [unfolded m'] False, of "''\<newline>''"] c Cons cs
          show ?thesis unfolding v name_re_matches at_end_def by auto
        qed
      qed
    qed
  qed
qed

text \<open>
  C2. The Manifest Builder is to accept a name iff it is non-empty, starts and ends with a
  lowercase alphanumeric character and has only lowercase alphanumerics, \<^verbatim>\<open>.\<close> and \<^verbatim>\<open>-\<close>
  in between. The code does not do that: \<^verbatim>\<open>$\<close> also matches just before a newline that
  ends the text, so the name made of \<^verbatim>\<open>a\<close> and a line feed passes
  \<^const>\<open>validate_plugin_name\<close> although it ends with a line feed and so is no
  \<^const>\<open>documented_name\<close>.
\<close>

theorem validate_accepts_trailing_newline:
  "validate_plugin_name ''a\<newline>'' = Inr () \<and> \<not> documented_name ''a\<newline>''"
  by (simp add: name_re_defs documented_name_def)

subsection \<open>Check mode\<close>

lemma write_or_check_check_mode: "snd (write_or_check w p content True) = w"
  by (simp add: write_or_check_def split: sum.splits)

text \<open>
  C5. In check mode the run changes nothing, whatever the starting state and whether or
  not it finds drift or fails: the world it returns, the files, the directories and the
  record of changes made, is the one it started from.
\<close>

theorem check_mode_changes_nothing: "snd (main loads dumps True w) = w"
proof -
  have a: "\<And>p c r w'. write_or_check w p c True = (r, w') \<Longrightarrow> w' = w"
    using write_or_check_check_mode by (metis snd_conv)
  show ?thesis
    by (auto simp: main_def Let_def split: sum.splits prod.splits dest!: a)
qed

subsection \<open>The MCP configuration\<close>

lemma extract_defaults_absent:
  "\<not> path_exists w GEMINI_EXTENSION \<Longrightarrow>
   extract_mcp_from_gemini loads w = Inr (DEFAULT_MCP_SERVER_NAME, DEFAULT_MCP_URL)"
  by (simp add: extract_mcp_from_gemini_def)

lemma load_json_Inr_exists: "load_json loads w p = Inr j \<Longrightarrow> path_exists w p"
  by (auto simp: load_json_def split: if_splits)

lemma extract_defaults_no_servers:
  assumes "load_json loads w GEMINI_EXTENSION = Inr (JObj data)"
    and "\<forall>servers. dict_get data ''mcpServers'' = JObj servers \<longrightarrow> servers = []"
  shows "extract_mcp_from_gemini loads w = Inr (DEFAULT_MCP_SERVER_NAME, DEFAULT_MCP_URL)"
  using assms load_json_Inr_exists[OF assms(1)]
  by (auto simp: extract_mcp_from_gemini_def split: json.splits list.splits)

lemma extract_defaults_not_mapping:
  assumes "load_json loads w GEMINI_EXTENSION = Inr (JObj data)"
    and "dict_get data ''mcpServers'' = JObj ((server_name, v) # rest)"
    and "\<forall>cfg. v \<noteq> JObj cfg"
  shows "extract_mcp_from_gemini loads w = Inr (DEFAULT_MCP_SERVER_NAME, DEFAULT_MCP_URL)"
  using assms load_json_Inr_exists[OF assms(1)]
  by (auto simp: extract_mcp_from_gemini_def split: json.splits list.splits)

lemma build_mcp_config_defaults:
  "extract_mcp_from_gemini loads w = Inr (DEFAULT_MCP_SERVER_NAME, DEFAULT_MCP_URL) \<Longrightarrow>
   build_mcp_config loads w =
     Inr [(''mcpServers'', JObj [(''huggingface-skills'',
            JObj [(''url'', JStr ''https://huggingface.co/mcp?login'')])])]"
  by (simp add: build_mcp_config_def DEFAULT_MCP_SERVER_NAME_def DEFAULT_MCP_URL_def)

text \<open>
  C3. The MCP Config Builder produces exactly the default document, with the default server
  name and the default URL, when there is no extension config file, when the file loads
  to a mapping that has no non-empty \<^verbatim>\<open>mcpServers\<close> mapping, and when the value of the first
  server entry is not a mapping (the name found there is dropped too).
\<close>

theorem mcp_config_fallback:
  "(\<not> path_exists w GEMINI_EXTENSION \<longrightarrow>
      build_mcp_config loads w =
        Inr [(''mcpServers'', JObj [(''huggingface-skills'',
               JObj [(''url'', JStr ''https://huggingface.co/mcp?login'')])])]) \<and>
   (load_json loads w GEMINI_EXTENSION = Inr (JObj data) \<and>
    (\<forall>servers. dict_get data ''mcpServers'' = JObj servers \<longrightarrow> servers = []) \<longrightarrow>
      build_mcp_config loads w =
        Inr [(''mcpServers'', JObj [(''huggingface-skills'',
               JObj [(''url'', JStr ''https://huggingface.co/mcp?login'')])])]) \<and>
   (load_json loads w GEMINI_EXTENSION = Inr (JObj data) \<and>
    dict_get data ''mcpServers'' = JObj ((server_name, v) # rest) \<and> (\<forall>cfg. v \<noteq> JObj cfg) \<longrightarrow>
      build_mcp_config loads w =
        Inr [(''mcpServers'', JObj [(''huggingface-skills'',
               JObj [(''url'', JStr ''https://huggingface.co/mcp?login'')])])])"
  using extract_defaults_absent extract_defaults_no_servers extract_defaults_not_mapping
    build_mcp_config_defaults
  by blast

lemmas sample_defs = sample_loads_def world_of_def load_json_def path_exists_def read_text_def
  GEMINI_EXTENSION_def CLAUDE_PLUGIN_MANIFEST_def dict_get_def

theorem mcp_config_fallback_witness:
  \<open>build_mcp_config sample_loads (world_of []) =
     Inr [(''mcpServers'', JObj [(''huggingface-skills'',
            JObj [(''url'', JStr ''https://huggingface.co/mcp?login'')])])] \<and>
   build_mcp_config sample_loads (world_of [(GEMINI_EXTENSION, File ''{"name": "x"}'')]) =
     Inr [(''mcpServers'', JObj [(''huggingface-skills'',
            JObj [(''url'', JStr ''https://huggingface.co/mcp?login'')])])] \<and>
   build_mcp_config sample_loads
       (world_of [(GEMINI_EXTENSION, File ''{"mcpServers": {"hf": "https://example.org/mcp"}}'')]) =
     Inr [(''mcpServers'', JObj [(''huggingface-skills'',
            JObj [(''url'', JStr ''https://huggingface.co/mcp?login'')])])]\<close>
proof -
  have a: "\<not> path_exists (world_of []) GEMINI_EXTENSION"
    by (simp add: sample_defs)
  have b: \<open>load_json sample_loads (world_of [(GEMINI_EXTENSION, File ''{"name": "x"}'')])
      GEMINI_EXTENSION = Inr (JObj [(''name'', JStr ''x'')]) \<and>
    (\<forall>servers. dict_get [(''name'', JStr ''x'')] ''mcpServers'' = JObj servers \<longrightarrow> servers = [])\<close>
    by (simp add: sample_defs)
  have c: \<open>load_json sample_loads
      (world_of [(GEMINI_EXTENSION, File ''{"mcpServers": {"hf": "https://example.org/mcp"}}'')])
      GEMINI_EXTENSION = Inr (JObj [(''mcpServers'', JObj [(''hf'', JStr ''https://example.org/mcp'')])]) \<and>
    dict_get [(''mcpServers'', JObj [(''hf'', JStr ''https://example.org/mcp'')])] ''mcpServers'' =
      JObj ((''hf'', JStr ''https://example.org/mcp'') # []) \<and>
    (\<forall>cfg. JStr ''https://example.org/mcp'' \<noteq> JObj cfg)\<close>
    by (simp add: sample_defs)
  from a b c show ?thesis
    using mcp_config_fallback [where w = "world_of []" and loads = sample_loads]
      mcp_config_fallback [where loads = sample_loads and data = "[(''name'', JStr ''x'')]"]
      mcp_config_fallback [where loads = sample_loads
         and data = "[(''mcpServers'', JObj [(''hf'', JStr ''https://example.org/mcp'')])]"
         and server_name = "''hf''" and v = "JStr ''https://example.org/mcp''" and rest = "[]"]
    by blast
qed

subsection \<open>The manifest\<close>

lemmas frontmatter_defs =
  parse_frontmatter_def re_search_def FRONTMATTER_RE_def isspace_def group1_def splitlines_def
  is_linebreak_def strip_def split_colon_def

lemma parse_sample: "parse_frontmatter sample_skill_text ''name'' = Some ''alpha''"
  by (simp add: sample_skill_text_def frontmatter_defs)

lemma skill_files_sample: "skill_files sample_world = [[''skills'', ''alpha'', ''SKILL.md'']]"
  by (simp add: skill_files_def sample_world_def world_of_def is_skill_md_def CLAUDE_PLUGIN_MANIFEST_def)

lemma collect_sample: "collect_skills sample_world = Inr [''alpha'']"
  by (simp add: collect_skills_def skill_files_sample)
     (simp add: sample_world_def world_of_def read_text_def CLAUDE_PLUGIN_MANIFEST_def parse_sample strip_def isspace_def)

lemma load_sample:
  "load_json sample_loads sample_world CLAUDE_PLUGIN_MANIFEST =
     Inr (JObj [(''name'', JStr ''hf-skills''), (''license'', JStr ''Apache-2.0'')])"
  by (simp add: sample_world_def sample_defs)

lemma build_sample:
  "build_cursor_plugin_manifest sample_loads sample_world =
     Inr [(''name'', JStr ''hf-skills''), (''skills'', JStr ''skills''),
          (''mcpServers'', JStr ''.mcp.json''), (''license'', JStr ''Apache-2.0'')]"
  by (simp add: build_cursor_plugin_manifest_def collect_sample load_sample dict_get_def
      name_re_defs OPTIONAL_FIELDS_def)

lemma copy_fields_other:
  "key \<notin> set keys \<Longrightarrow> map_of (copy_fields keys src m) key = map_of m key"
  by (induction keys src m rule: copy_fields.induct) (auto simp: update_conv' split: option.splits)


lemma build_manifest_Inr:
  assumes "build_cursor_plugin_manifest loads w = Inr manifest"
  obtains src name skills where
    "load_json loads w CLAUDE_PLUGIN_MANIFEST = Inr (JObj src)"
    "dict_get src ''name'' = JStr name" "name \<noteq> []"
    "validate_plugin_name name = Inr ()"
    "collect_skills w = Inr skills" "skills \<noteq> []"
    "manifest = copy_fields OPTIONAL_FIELDS src
       [(''name'', JStr name), (''skills'', JStr ''skills''), (''mcpServers'', JStr ''.mcp.json'')]"
  using assms unfolding build_cursor_plugin_manifest_def
  by (auto split: sum.splits json.splits if_splits)

text \<open>
  What every manifest the builder produces does hold: a \<^verbatim>\<open>name\<close> that is a name of the
  specification or such a name followed by one line feed, \<^verbatim>\<open>skills\<close> equal to the string
  \<^verbatim>\<open>skills\<close> and \<^verbatim>\<open>mcpServers\<close> equal to the string \<^verbatim>\<open>.mcp.json\<close>. The discovered skills do
  not enter it: two states whose authoritative metadata load alike, and from which the
  build succeeds, give the same manifest, whatever skills each of them holds.
\<close>

lemma manifest_keys:
  assumes "build_cursor_plugin_manifest loads w = Inr manifest"
  shows "(\<exists>name. map_of manifest ''name'' = Some (JStr name) \<and>
            (documented_name name \<or> (\<exists>m. name = m @ ''\<newline>'' \<and> documented_name m))) \<and>
         map_of manifest ''skills'' = Some (JStr ''skills'') \<and>
         map_of manifest ''mcpServers'' = Some (JStr ''.mcp.json'') \<and>
         (\<forall>w' manifest'. build_cursor_plugin_manifest loads w' = Inr manifest' \<and>
            load_json loads w' CLAUDE_PLUGIN_MANIFEST = load_json loads w CLAUDE_PLUGIN_MANIFEST
            \<longrightarrow> manifest' = manifest)"
proof -
  from assms obtain src name skills where
    l: "load_json loads w CLAUDE_PLUGIN_MANIFEST = Inr (JObj src)"
    and n: "dict_get src ''name'' = JStr name" "name \<noteq> []" "validate_plugin_name name = Inr ()"
    and m: "manifest = copy_fields OPTIONAL_FIELDS src
       [(''name'', JStr name), (''skills'', JStr ''skills''), (''mcpServers'', JStr ''.mcp.json'')]"
    by (rule build_manifest_Inr)
  have "map_of manifest ''name'' = Some (JStr name)"
    unfolding m by (subst copy_fields_other) (simp_all add: OPTIONAL_FIELDS_def)
  moreover have "documented_name name \<or> (\<exists>m. name = m @ ''\<newline>'' \<and> documented_name m)"
    using n(3) by (simp only: validate_plugin_name_iff)
  moreover have "map_of manifest ''skills'' = Some (JStr ''skills'')"
    unfolding m by (subst copy_fields_other) (simp_all add: OPTIONAL_FIELDS_def)
  moreover have "map_of manifest ''mcpServers'' = Some (JStr ''.mcp.json'')"
    unfolding m by (subst copy_fields_other) (simp_all add: OPTIONAL_FIELDS_def)
  moreover have "manifest' = manifest"
    if "build_cursor_plugin_manifest loads w' = Inr manifest'"
      and "load_json loads w' CLAUDE_PLUGIN_MANIFEST = load_json loads w CLAUDE_PLUGIN_MANIFEST"
    for w' manifest'
  proof -
    from that(1) obtain src' name' where
      l': "load_json loads w' CLAUDE_PLUGIN_MANIFEST = Inr (JObj src')"
      and n': "dict_get src' ''name'' = JStr name'"
      and m': "manifest' = copy_fields OPTIONAL_FIELDS src'
        [(''name'', JStr name'), (''skills'', JStr ''skills''), (''mcpServers'', JStr ''.mcp.json'')]"
      by (rule build_manifest_Inr)
    from l l' that(2) have "src' = src" by simp
    with n n' m m' show ?thesis by simp
  qed
  ultimately show ?thesis by blast
qed

text \<open>
  C7. Every manifest the builder produces is to hold a validated \<^verbatim>\<open>name\<close>, next to the two
  fixed strings under \<^verbatim>\<open>skills\<close> and \<^verbatim>\<open>mcpServers\<close>. The code does not keep the first part:
  from metadata whose name is the letter \<^verbatim>\<open>a\<close> followed by a line feed the build succeeds,
  and the manifest it returns carries that name, which is no \<^const>\<open>documented_name\<close>. The
  cause is the \<^verbatim>\<open>$\<close> of the pattern, as for C2.
\<close>

theorem manifest_name_trailing_newline:
  "build_cursor_plugin_manifest sample_loads_newline_name sample_world_newline_name =
     Inr [(''name'', JStr ''a\<newline>''), (''skills'', JStr ''skills''),
          (''mcpServers'', JStr ''.mcp.json'')] \<and>
   \<not> documented_name ''a\<newline>''"
proof -
  have s: "skill_files sample_world_newline_name = [[''skills'', ''alpha'', ''SKILL.md'']]"
    by (simp add: skill_files_def sample_world_newline_name_def world_of_def is_skill_md_def
        CLAUDE_PLUGIN_MANIFEST_def)
  have c: "collect_skills sample_world_newline_name = Inr [''alpha'']"
    by (simp add: collect_skills_def s)
       (simp add: sample_world_newline_name_def world_of_def read_text_def
          CLAUDE_PLUGIN_MANIFEST_def parse_sample strip_def isspace_def)
  have l: "load_json sample_loads_newline_name sample_world_newline_name CLAUDE_PLUGIN_MANIFEST =
      Inr (JObj [(''name'', JStr ''a\<newline>'')])"
    by (simp add: sample_world_newline_name_def sample_loads_newline_name_def world_of_def
        load_json_def path_exists_def read_text_def CLAUDE_PLUGIN_MANIFEST_def)
  have "build_cursor_plugin_manifest sample_loads_newline_name sample_world_newline_name =
     Inr [(''name'', JStr ''a\<newline>''), (''skills'', JStr ''skills''),
          (''mcpServers'', JStr ''.mcp.json'')]"
    by (simp add: build_cursor_plugin_manifest_def c l dict_get_def name_re_defs
        OPTIONAL_FIELDS_def)
  moreover have "\<not> documented_name ''a\<newline>''"
    by (simp add: documented_name_def lower_alnum_def)
  ultimately show ?thesis by blast
qed



lemma extract_invalid_json:
  assumes "read_text w GEMINI_EXTENSION = Inr t" and "loads t = None"
  shows "extract_mcp_from_gemini loads w = Inl JSONDecodeError"
proof -
  from assms(1) have "path_exists w GEMINI_EXTENSION"
    by (auto simp: read_text_def path_exists_def split: if_splits option.splits)
  with assms show ?thesis
    by (simp add: extract_mcp_from_gemini_def load_json_def)
qed

text \<open>
  C10. If the extension config file exists and its text is not valid JSON, nothing falls
  back to the default server name and URL: reading the config raises the parse error, so
  does building the MCP document, and the run ends with an error having changed nothing.
  That error is the parse error whenever the manifest, which is built first, was built.
\<close>

theorem invalid_extension_config_aborts:
  assumes "read_text w GEMINI_EXTENSION = Inr t" and "loads t = None"
  shows "extract_mcp_from_gemini loads w = Inl JSONDecodeError \<and>
         build_mcp_config loads w = Inl JSONDecodeError \<and>
         (\<exists>e. main loads dumps check w = (Inl e, w)) \<and>
         (\<forall>manifest. build_cursor_plugin_manifest loads w = Inr manifest \<longrightarrow>
            main loads dumps check w = (Inl JSONDecodeError, w))"
proof -
  have e: "extract_mcp_from_gemini loads w = Inl JSONDecodeError"
    using assms by (rule extract_invalid_json)
  then have b: "build_mcp_config loads w = Inl JSONDecodeError"
    by (simp add: build_mcp_config_def)
  have "\<exists>e. main loads dumps check w = (Inl e, w)"
    using b by (cases "build_cursor_plugin_manifest loads w") (simp_all add: main_def)
  moreover have "main loads dumps check w = (Inl JSONDecodeError, w)"
    if "build_cursor_plugin_manifest loads w = Inr manifest" for manifest
    using b that by (simp add: main_def)
  ultimately show ?thesis using e b by blast
qed

lemma build_sample_bad_config:
  "build_cursor_plugin_manifest sample_loads sample_world_bad_config =
     Inr [(''name'', JStr ''hf-skills''), (''skills'', JStr ''skills''),
          (''mcpServers'', JStr ''.mcp.json''), (''license'', JStr ''Apache-2.0'')]"
proof -
  have s: "skill_files sample_world_bad_config = [[''skills'', ''alpha'', ''SKILL.md'']]"
    by (simp add: skill_files_def sample_world_bad_config_def sample_world_def world_of_def
        is_skill_md_def CLAUDE_PLUGIN_MANIFEST_def GEMINI_EXTENSION_def)
  have c: "collect_skills sample_world_bad_config = Inr [''alpha'']"
    by (simp add: collect_skills_def s)
       (simp add: sample_world_bad_config_def sample_world_def world_of_def read_text_def
          CLAUDE_PLUGIN_MANIFEST_def parse_sample strip_def isspace_def)
  have l: "load_json sample_loads sample_world_bad_config CLAUDE_PLUGIN_MANIFEST =
     Inr (JObj [(''name'', JStr ''hf-skills''), (''license'', JStr ''Apache-2.0'')])"
    by (simp add: sample_world_bad_config_def sample_world_def sample_defs)
  show ?thesis
    by (simp add: build_cursor_plugin_manifest_def c l dict_get_def name_re_defs OPTIONAL_FIELDS_def)
qed

theorem invalid_extension_config_aborts_witness:
  "main sample_loads sample_dumps False sample_world_bad_config =
     (Inl JSONDecodeError, sample_world_bad_config) \<and>
   main sample_loads sample_dumps True sample_world_bad_config =
     (Inl JSONDecodeError, sample_world_bad_config)"
proof -
  have r: "read_text sample_world_bad_config GEMINI_EXTENSION = Inr ''{oops''"
    by (simp add: sample_world_bad_config_def sample_world_def sample_defs)
  have l: "sample_loads ''{oops'' = None"
    by (simp add: sample_loads_def)
  show ?thesis
    using invalid_extension_config_aborts
        [where loads = sample_loads and dumps = sample_dumps and check = False, OF r l]
      invalid_extension_config_aborts
        [where loads = sample_loads and dumps = sample_dumps and check = True, OF r l]
      build_sample_bad_config
    by blast
qed

subsection \<open>Discovery\<close>

lemma collect_from_nameless:
  assumes "\<forall>p \<in> set ps. \<exists>t. read_text w p = Inr t \<and>
     strip (case parse_frontmatter t ''name'' of None \<Rightarrow> [] | Some n \<Rightarrow> n) = []"
  shows "collect_from w ps skills = Inr skills"
  using assms by (induction ps) auto

text \<open>
  C4. When every descriptor file under the skills directory has no \<^verbatim>\<open>name\<close> in its header,
  or a blank one (in particular when there is no descriptor file), no skill is
  discovered, the build of the manifest fails, and the run ends with that error having
  created and changed nothing. The error is the discovery error whenever the
  authoritative metadata, which is checked first, loads with a valid name.
\<close>

theorem no_skills_build_fails:
  assumes "\<forall>p \<in> set (skill_files w). \<exists>t. read_text w p = Inr t \<and>
     strip (case parse_frontmatter t ''name'' of None \<Rightarrow> [] | Some n \<Rightarrow> n) = []"
  shows "collect_skills w = Inr [] \<and>
         (\<exists>e. build_cursor_plugin_manifest loads w = Inl e \<and>
              main loads dumps check w = (Inl e, w)) \<and>
         (\<forall>src name. load_json loads w CLAUDE_PLUGIN_MANIFEST = Inr (JObj src) \<and>
              dict_get src ''name'' = JStr name \<and> name \<noteq> [] \<and>
              validate_plugin_name name = Inr () \<longrightarrow>
            main loads dumps check w = (Inl (ValueError NoSkills), w))"
proof -
  have c: "collect_skills w = Inr []"
    unfolding collect_skills_def using assms by (rule collect_from_nameless)
  have f: "\<exists>e. build_cursor_plugin_manifest loads w = Inl e"
  proof (cases "build_cursor_plugin_manifest loads w")
    case (Inr manifest)
    then obtain skills where "collect_skills w = Inr skills" "skills \<noteq> []"
      by (rule build_manifest_Inr)
    with c show ?thesis by simp
  qed blast
  then have m: "\<exists>e. build_cursor_plugin_manifest loads w = Inl e \<and>
      main loads dumps check w = (Inl e, w)"
    by (auto simp: main_def)
  have "main loads dumps check w = (Inl (ValueError NoSkills), w)"
    if "load_json loads w CLAUDE_PLUGIN_MANIFEST = Inr (JObj src)"
      "dict_get src ''name'' = JStr name" "name \<noteq> []" "validate_plugin_name name = Inr ()"
    for src name
    using that c by (simp add: main_def build_cursor_plugin_manifest_def)
  with c m show ?thesis by blast
qed

theorem no_skills_build_fails_witness:
  "collect_skills sample_world_no_name = Inr [] \<and>
   main sample_loads sample_dumps False sample_world_no_name =
     (Inl (ValueError NoSkills), sample_world_no_name)"
proof -
  have s: "skill_files sample_world_no_name =
      [[''skills'', ''alpha'', ''SKILL.md''], [''skills'', ''beta'', ''SKILL.md'']]"
    by (simp add: skill_files_def sample_world_no_name_def world_of_def
        is_skill_md_def CLAUDE_PLUGIN_MANIFEST_def)
  have p1: "parse_frontmatter ''---\<newline>title: alpha\<newline>---\<newline>'' ''name'' = None"
    by (simp add: frontmatter_defs)
  have p2: "parse_frontmatter ''# beta'' ''name'' = None"
    by (simp add: frontmatter_defs)
  have h: "\<forall>p \<in> set (skill_files sample_world_no_name).
     \<exists>t. read_text sample_world_no_name p = Inr t \<and>
     strip (case parse_frontmatter t ''name'' of None \<Rightarrow> [] | Some n \<Rightarrow> n) = []"
    unfolding s
    by (simp add: sample_world_no_name_def world_of_def read_text_def CLAUDE_PLUGIN_MANIFEST_def
        p1 p2 strip_def)
  have l: "load_json sample_loads sample_world_no_name CLAUDE_PLUGIN_MANIFEST =
      Inr (JObj [(''name'', JStr ''hf-skills''), (''license'', JStr ''Apache-2.0'')]) \<and>
     dict_get [(''name'', JStr ''hf-skills''), (''license'', JStr ''Apache-2.0'')] ''name'' =
      JStr ''hf-skills'' \<and> ''hf-skills'' \<noteq> [] \<and> validate_plugin_name ''hf-skills'' = Inr ()"
    by (simp add: sample_world_no_name_def sample_defs name_re_defs)
  show ?thesis
    using no_skills_build_fails
        [OF h, where loads = sample_loads and dumps = sample_dumps and check = False] l
    by blast
qed

subsection \<open>URL resolution\<close>

lemma extract_first_mapping:
  assumes "load_json loads w GEMINI_EXTENSION = Inr (JObj data)"
    and "dict_get data ''mcpServers'' = JObj ((server_name, JObj cfg) # rest)"
  shows "extract_mcp_from_gemini loads w = Inr (server_name, resolve_url cfg)"
  using assms load_json_Inr_exists [OF assms(1)]
  by (simp add: extract_mcp_from_gemini_def)

lemma strip_Nil [simp]: "strip [] = []"
  by (simp add: strip_def)

text \<open>
  The script does not resolve the URL as \<^const>\<open>documented_url\<close> does. A \<^verbatim>\<open>url\<close> that is truthy
  but is no string, or is a string of whitespace only, hides \<^verbatim>\<open>httpUrl\<close> and then fails the
  check on the chosen value, so the default is returned.
\<close>

theorem url_resolution_counterexample:
  \<open>extract_mcp_from_gemini sample_loads (world_of [(GEMINI_EXTENSION,
       File ''{"mcpServers": {"hf": {"url": 5, "httpUrl": "https://example.org/mcp"}}}'')]) =
     Inr (''hf'', ''https://huggingface.co/mcp?login'') \<and>
   documented_url [(''url'', JInt 5), (''httpUrl'', JStr ''https://example.org/mcp'')] =
     ''https://example.org/mcp'' \<and>
   extract_mcp_from_gemini sample_loads (world_of [(GEMINI_EXTENSION,
       File ''{"mcpServers": {"hf": {"url": " ", "httpUrl": "https://example.org/mcp"}}}'')]) =
     Inr (''hf'', ''https://huggingface.co/mcp?login'') \<and>
   documented_url [(''url'', JStr '' ''), (''httpUrl'', JStr ''https://example.org/mcp'')] = '' ''\<close>
  by (simp add: extract_mcp_from_gemini_def sample_defs resolve_url_def py_or_def
      documented_url_def field_string_def DEFAULT_MCP_URL_def strip_def isspace_def)

text \<open>
  C1, as amended. When the first entry of \<^verbatim>\<open>mcpServers\<close> is a mapping, the server name is
  its key, and the URL is chosen in two steps: the value of \<^verbatim>\<open>url\<close> if it is truthy,
  otherwise the value of \<^verbatim>\<open>httpUrl\<close>, is taken; it is the result if it is a string that is
  not blank after trimming, and the default URL is the result otherwise. So a \<^verbatim>\<open>url\<close> that
  is a non-blank string wins whatever \<^verbatim>\<open>httpUrl\<close> holds; a non-blank \<^verbatim>\<open>httpUrl\<close> string is
  used when \<^verbatim>\<open>url\<close> is absent, null, empty or otherwise falsy; and the default is used when
  neither field is truthy.
\<close>

theorem url_resolution:
  assumes "load_json loads w GEMINI_EXTENSION = Inr (JObj data)"
    and "dict_get data ''mcpServers'' = JObj ((server_name, JObj cfg) # rest)"
  shows "extract_mcp_from_gemini loads w =
           Inr (server_name,
             case (if truthy (dict_get cfg ''url'') then dict_get cfg ''url''
                   else dict_get cfg ''httpUrl'') of
               JStr u \<Rightarrow> if strip u = [] then DEFAULT_MCP_URL else u
             | _ \<Rightarrow> DEFAULT_MCP_URL) \<and>
         (\<forall>u. dict_get cfg ''url'' = JStr u \<and> strip u \<noteq> [] \<longrightarrow>
            extract_mcp_from_gemini loads w = Inr (server_name, u)) \<and>
         (\<forall>h. \<not> truthy (dict_get cfg ''url'') \<and> dict_get cfg ''httpUrl'' = JStr h \<and>
              strip h \<noteq> [] \<longrightarrow>
            extract_mcp_from_gemini loads w = Inr (server_name, h)) \<and>
         (\<not> truthy (dict_get cfg ''url'') \<and> \<not> truthy (dict_get cfg ''httpUrl'') \<longrightarrow>
            extract_mcp_from_gemini loads w = Inr (server_name, DEFAULT_MCP_URL))"
proof -
  note e = extract_first_mapping [OF assms]
  have d: "strip DEFAULT_MCP_URL \<noteq> []"
    by (simp add: DEFAULT_MCP_URL_def strip_def isspace_def)
  have 1: "resolve_url cfg =
     (case (if truthy (dict_get cfg ''url'') then dict_get cfg ''url''
            else dict_get cfg ''httpUrl'') of
        JStr u \<Rightarrow> if strip u = [] then DEFAULT_MCP_URL else u
      | _ \<Rightarrow> DEFAULT_MCP_URL)"
    using d by (auto simp: resolve_url_def py_or_def split: json.splits)
  have 2: "resolve_url cfg = u" if "dict_get cfg ''url'' = JStr u" "strip u \<noteq> []" for u
  proof -
    from that have "u \<noteq> []" by auto
    with that show ?thesis by (simp add: resolve_url_def py_or_def)
  qed
  have 3: "resolve_url cfg = h"
    if "\<not> truthy (dict_get cfg ''url'')" "dict_get cfg ''httpUrl'' = JStr h" "strip h \<noteq> []" for h
  proof -
    from that have "h \<noteq> []" by auto
    with that show ?thesis by (simp add: resolve_url_def py_or_def)
  qed
  have 4: "resolve_url cfg = DEFAULT_MCP_URL"
    if "\<not> truthy (dict_get cfg ''url'')" "\<not> truthy (dict_get cfg ''httpUrl'')"
    using that d by (simp add: resolve_url_def py_or_def)
  show ?thesis
    unfolding e using 1 2 3 4 by simp
qed

theorem url_resolution_witness:
  \<open>extract_mcp_from_gemini sample_loads (world_of [(GEMINI_EXTENSION,
       File ''{"mcpServers": {"hf": {"url": "https://a.example/mcp", "httpUrl": "https://b.example/mcp"}}}'')]) =
     Inr (''hf'', ''https://a.example/mcp'') \<and>
   extract_mcp_from_gemini sample_loads (world_of [(GEMINI_EXTENSION,
       File ''{"mcpServers": {"hf": {"httpUrl": "https://example.org/mcp"}}}'')]) =
     Inr (''hf'', ''https://example.org/mcp'')\<close>
proof -
  have a: \<open>load_json sample_loads (world_of [(GEMINI_EXTENSION,
       File ''{"mcpServers": {"hf": {"url": "https://a.example/mcp", "httpUrl": "https://b.example/mcp"}}}'')])
     GEMINI_EXTENSION =
     Inr (JObj [(''mcpServers'',
           JObj [(''hf'', JObj [(''url'', JStr ''https://a.example/mcp''),
                                (''httpUrl'', JStr ''https://b.example/mcp'')])])])\<close>
    by (simp add: sample_defs)
  have a': "dict_get [(''mcpServers'',
           JObj [(''hf'', JObj [(''url'', JStr ''https://a.example/mcp''),
                                (''httpUrl'', JStr ''https://b.example/mcp'')])])] ''mcpServers'' =
     JObj ((''hf'', JObj [(''url'', JStr ''https://a.example/mcp''),
                                (''httpUrl'', JStr ''https://b.example/mcp'')]) # [])"
    by (simp add: dict_get_def)
  have a'': "dict_get [(''url'', JStr ''https://a.example/mcp''),
       (''httpUrl'', JStr ''https://b.example/mcp'')] ''url'' = JStr ''https://a.example/mcp'' \<and>
     strip ''https://a.example/mcp'' \<noteq> []"
    by (simp add: dict_get_def strip_def isspace_def)
  have b: \<open>load_json sample_loads (world_of [(GEMINI_EXTENSION,
       File ''{"mcpServers": {"hf": {"httpUrl": "https://example.org/mcp"}}}'')])
     GEMINI_EXTENSION =
     Inr (JObj [(''mcpServers'',
           JObj [(''hf'', JObj [(''httpUrl'', JStr ''https://example.org/mcp'')])])])\<close>
    by (simp add: sample_defs)
  have b': "dict_get [(''mcpServers'',
           JObj [(''hf'', JObj [(''httpUrl'', JStr ''https://example.org/mcp'')])])] ''mcpServers'' =
     JObj ((''hf'', JObj [(''httpUrl'', JStr ''https://example.org/mcp'')]) # [])"
    by (simp add: dict_get_def)
  have b'': "\<not> truthy (dict_get [(''httpUrl'', JStr ''https://example.org/mcp'')] ''url'') \<and>
     dict_get [(''httpUrl'', JStr ''https://example.org/mcp'')] ''httpUrl'' =
       JStr ''https://example.org/mcp'' \<and> strip ''https://example.org/mcp'' \<noteq> []"
    by (simp add: dict_get_def strip_def isspace_def)
  show ?thesis
    using url_resolution [OF a a'] a'' url_resolution [OF b b'] b'' by blast
qed

subsection \<open>The header block\<close>

lemma split_colon_first:
  "CHR '':'' \<notin> set k \<Longrightarrow> split_colon (k @ CHR '':'' # v) = (k, v)"
  by (induction k) (auto simp: split_colon_def)

lemma parse_lines_last:
  "parse_lines lines data key =
     (case rev (filter (\<lambda>line. CHR '':'' \<in> set line \<and> strip (fst (split_colon line)) = key) lines) of
        [] \<Rightarrow> data key
      | line # _ \<Rightarrow> Some (strip (snd (split_colon line))))"
proof (induction lines arbitrary: data)
  case Nil
  then show ?case by simp
next
  case (Cons line lines)
  show ?case
    by (cases "split_colon line") (auto simp: Cons.IH split: list.splits)
qed

text \<open>
  C9. When the header block of a descriptor is found, the parsed mapping binds a key to
  the trimmed text after the first colon of the last line whose trimmed text before its
  first colon is that key; a key that no such line gives is unbound, and a line without a
  colon gives nothing. So of two \<^verbatim>\<open>name:\<close> lines the later one counts. The split is at
  the first colon: a line made of a text without colon, a colon and any text splits into
  these two texts.
\<close>

theorem frontmatter_last_line_wins:
  assumes "re_search FRONTMATTER_RE text = Some m"
  shows "parse_frontmatter text key =
     (case rev (filter (\<lambda>line. CHR '':'' \<in> set line \<and> strip (fst (split_colon line)) = key)
                  (splitlines (group1 m))) of
        [] \<Rightarrow> None
      | line # _ \<Rightarrow> Some (strip (snd (split_colon line)))) \<and>
     (\<forall>k v. CHR '':'' \<notin> set k \<longrightarrow> split_colon (k @ CHR '':'' # v) = (k, v))"
  using assms by (simp add: parse_frontmatter_def parse_lines_last split_colon_first)

theorem frontmatter_last_line_wins_witness:
  "parse_frontmatter sample_header_text ''name'' = Some ''bar:baz'' \<and>
   parse_frontmatter sample_header_text ''junk'' = None"
proof -
  have m: "re_search FRONTMATTER_RE sample_header_text =
      Some (39, ''body'', Some ''name: foo\<newline>junk\<newline>name:  bar:baz '')"
    by (simp add: sample_header_text_def re_search_def FRONTMATTER_RE_def isspace_def)
  have l: "splitlines (group1 (39, ''body'', Some ''name: foo\<newline>junk\<newline>name:  bar:baz '')) =
      [''name: foo'', ''junk'', ''name:  bar:baz '']"
    by (simp add: group1_def splitlines_def is_linebreak_def)
  show ?thesis
    using frontmatter_last_line_wins [OF m, of "''name''", THEN conjunct1]
      frontmatter_last_line_wins [OF m, of "''junk''", THEN conjunct1]
    unfolding l by (simp add: split_colon_def strip_def isspace_def)
qed

subsection \<open>Write mode\<close>

lemmas path_defs = CURSOR_PLUGIN_DIR_def CURSOR_PLUGIN_MANIFEST_def CURSOR_MCP_CONFIG_def
  CLAUDE_PLUGIN_MANIFEST_def GEMINI_EXTENSION_def

lemma mkdir_parents_root: "mkdir_parents w [] = Inr w"
  by (subst mkdir_parents.simps) (simp add: is_dir_def)

lemma mkdir_parents_top:
  "mkdir_parents w [d] =
     (if is_dir w [d] then Inr w
      else if path_exists w [d] then Inl FileExistsError
      else Inr (create_dir w [d]))"
  by (subst mkdir_parents.simps) (simp add: is_dir_def)

lemma same_inputs_refl: "same_inputs w w"
  by (simp add: same_inputs_def)

lemma same_inputs_trans: "same_inputs w w1 \<Longrightarrow> same_inputs w1 w2 \<Longrightarrow> same_inputs w w2"
  by (simp add: same_inputs_def)

lemma write_or_check_same_inputs:
  assumes "write_or_check w p c chk = (r, w')"
    and "p = CURSOR_PLUGIN_MANIFEST \<or> p = CURSOR_MCP_CONFIG"
  shows "same_inputs w w'"
  using assms
  by (auto simp: write_or_check_def same_inputs_def outputs_def path_defs mkdir_parents_root
      mkdir_parents_top write_text_def create_dir_def update_conv'
      split: sum.splits if_splits)

lemma write_or_check_written:
  assumes "write_or_check w p c False = (Inr ok, w')" and "p \<noteq> []"
  shows "read_text w' p = Inr c \<and> path_exists w' p"
  using assms
  by (auto simp: write_or_check_def read_text_def path_exists_def write_text_def update_conv'
      split: sum.splits if_splits option.splits fsnode.splits)

lemma write_mcp_keeps_manifest:
  assumes "write_or_check w CURSOR_MCP_CONFIG c chk = (r, w')"
  shows "map_of (nodes w') CURSOR_PLUGIN_MANIFEST = map_of (nodes w) CURSOR_PLUGIN_MANIFEST"
  using assms
  by (auto simp: write_or_check_def path_defs mkdir_parents_root write_text_def update_conv'
      split: sum.splits if_splits)

lemma write_or_check_up_to_date:
  assumes "read_text w p = Inr c" and "path_exists w p"
  shows "write_or_check w p c chk = (Inr True, w)"
  using assms by (simp add: write_or_check_def)

lemma skill_files_set:
  "skill_files w = sorted_list_of_set {p \<in> dom (map_of (nodes w)). is_skill_md p}"
proof -
  have "set (filter is_skill_md (map fst (nodes w))) = {p \<in> dom (map_of (nodes w)). is_skill_md p}"
    by (auto simp: dom_map_of_conv_image_fst)
  then show ?thesis
    unfolding skill_files_def by (metis sorted_list_of_set_sort_remdups)
qed

lemma is_skill_md_not_output: "is_skill_md p \<Longrightarrow> p \<notin> outputs"
  by (auto simp: is_skill_md_def outputs_def path_defs)

lemma same_inputs_skill_files:
  assumes "same_inputs w w'"
  shows "skill_files w' = skill_files w"
proof -
  have "{p \<in> dom (map_of (nodes w')). is_skill_md p} = {p \<in> dom (map_of (nodes w)). is_skill_md p}"
    using assms is_skill_md_not_output by (auto simp: same_inputs_def dom_def)
  then show ?thesis by (simp add: skill_files_set)
qed

lemma same_inputs_read:
  assumes "same_inputs w w'" and "q \<notin> outputs"
  shows "read_text w' q = read_text w q" and "path_exists w' q = path_exists w q"
  using assms by (simp_all add: same_inputs_def read_text_def path_exists_def)

lemma skill_files_are_skill_md: "p \<in> set (skill_files w) \<Longrightarrow> is_skill_md p"
  by (auto simp: skill_files_def)

lemma same_inputs_collect_from:
  assumes "same_inputs w w'" and "\<forall>p \<in> set ps. is_skill_md p"
  shows "collect_from w' ps skills = collect_from w ps skills"
  using assms(2)
proof (induction ps arbitrary: skills)
  case Nil
  then show ?case by simp
next
  case (Cons p ps)
  then have "read_text w' p = read_text w p"
    using same_inputs_read(1) [OF assms(1)] is_skill_md_not_output by simp
  with Cons show ?case by (simp add: Let_def split: sum.splits)
qed

lemma same_inputs_collect_skills:
  "same_inputs w w' \<Longrightarrow> collect_skills w' = collect_skills w"
  by (simp add: collect_skills_def same_inputs_skill_files same_inputs_collect_from
      skill_files_are_skill_md)

lemma same_inputs_load_json:
  "same_inputs w w' \<Longrightarrow> q \<notin> outputs \<Longrightarrow> load_json loads w' q = load_json loads w q"
  by (simp add: load_json_def same_inputs_read)

lemma same_inputs_build_manifest:
  assumes "same_inputs w w'"
  shows "build_cursor_plugin_manifest loads w' = build_cursor_plugin_manifest loads w"
proof -
  have "CLAUDE_PLUGIN_MANIFEST \<notin> outputs" by (simp add: outputs_def path_defs)
  then have l: "load_json loads w' CLAUDE_PLUGIN_MANIFEST = load_json loads w CLAUDE_PLUGIN_MANIFEST"
    using assms by (rule same_inputs_load_json [rotated])
  have c: "collect_skills w' = collect_skills w"
    using assms by (rule same_inputs_collect_skills)
  show ?thesis
    unfolding build_cursor_plugin_manifest_def l c by (rule refl)
qed

lemma same_inputs_build_mcp:
  assumes "same_inputs w w'"
  shows "build_mcp_config loads w' = build_mcp_config loads w"
proof -
  have "GEMINI_EXTENSION \<notin> outputs" by (simp add: outputs_def path_defs)
  then show ?thesis
    using assms
    by (simp add: build_mcp_config_def extract_mcp_from_gemini_def same_inputs_load_json
        same_inputs_read)
qed

text \<open>
  C6. Write mode is idempotent. After a run in write mode that succeeded, the inputs are
  as they were, so a second run builds the same two documents; it finds each output file
  holding exactly the freshly rendered text, and it ends in the state it started from:
  no file written, no directory made, nothing added to the record of changes.
\<close>

theorem write_mode_idempotent:
  assumes "main loads dumps False w = (Inr Wrote, w1)"
  shows "main loads dumps False w1 = (Inr Wrote, w1) \<and>
         (\<exists>manifest mcp.
            build_cursor_plugin_manifest loads w = Inr manifest \<and>
            build_mcp_config loads w = Inr mcp \<and>
            build_cursor_plugin_manifest loads w1 = Inr manifest \<and>
            build_mcp_config loads w1 = Inr mcp \<and>
            read_text w1 CURSOR_PLUGIN_MANIFEST = Inr (render_json dumps manifest) \<and>
            read_text w1 CURSOR_MCP_CONFIG = Inr (render_json dumps mcp))"
proof -
  from assms obtain manifest mcp ok1 ok2 wa where
    bm: "build_cursor_plugin_manifest loads w = Inr manifest"
    and bc: "build_mcp_config loads w = Inr mcp"
    and w1: "write_or_check w CURSOR_PLUGIN_MANIFEST (render_json dumps manifest) False = (Inr ok1, wa)"
    and w2: "write_or_check wa CURSOR_MCP_CONFIG (render_json dumps mcp) False = (Inr ok2, w1)"
    by (auto simp: main_def split: sum.splits prod.splits)
  have s: "same_inputs w w1"
    using write_or_check_same_inputs [OF w1] write_or_check_same_inputs [OF w2]
    by (blast intro: same_inputs_trans)
  have bm1: "build_cursor_plugin_manifest loads w1 = Inr manifest"
    using bm same_inputs_build_manifest [OF s] by simp
  have bc1: "build_mcp_config loads w1 = Inr mcp"
    using bc same_inputs_build_mcp [OF s] by simp
  have ra: "read_text wa CURSOR_PLUGIN_MANIFEST = Inr (render_json dumps manifest)"
      "path_exists wa CURSOR_PLUGIN_MANIFEST"
    using write_or_check_written [OF w1] by (simp_all add: path_defs)
  have r1: "read_text w1 CURSOR_PLUGIN_MANIFEST = Inr (render_json dumps manifest)"
      "path_exists w1 CURSOR_PLUGIN_MANIFEST"
    using ra write_mcp_keeps_manifest [OF w2]
    by (auto simp: read_text_def path_exists_def split: if_splits)
  have r2: "read_text w1 CURSOR_MCP_CONFIG = Inr (render_json dumps mcp)"
      "path_exists w1 CURSOR_MCP_CONFIG"
    using write_or_check_written [OF w2] by (simp_all add: path_defs)
  have "main loads dumps False w1 = (Inr Wrote, w1)"
    by (simp add: main_def bm1 bc1 write_or_check_up_to_date [OF r1] write_or_check_up_to_date [OF r2])
  with bm bc bm1 bc1 r1 r2 show ?thesis by blast
qed


theorem write_mode_idempotent_witness:
  "main sample_loads sample_dumps False sample_world = (Inr Wrote, sample_world_written) \<and>
   main sample_loads sample_dumps False sample_world_written = (Inr Wrote, sample_world_written)"
proof -
  have c: "build_mcp_config sample_loads sample_world =
      Inr [(''mcpServers'', JObj [(''huggingface-skills'',
             JObj [(''url'', JStr ''https://huggingface.co/mcp?login'')])])]"
    by (rule build_mcp_config_defaults, rule extract_defaults_absent)
       (simp add: sample_world_def sample_defs)
  have r: "render_json sample_dumps [(''name'', JStr ''hf-skills''), (''skills'', JStr ''skills''),
          (''mcpServers'', JStr ''.mcp.json''), (''license'', JStr ''Apache-2.0'')] =
        sample_manifest_text @ ''\<newline>''"
      "render_json sample_dumps [(''mcpServers'', JObj [(''huggingface-skills'',
             JObj [(''url'', JStr ''https://huggingface.co/mcp?login'')])])] =
        sample_mcp_text @ ''\<newline>''"
    by (simp_all add: render_json_def sample_dumps_def)
  have 1: "write_or_check sample_world CURSOR_PLUGIN_MANIFEST (sample_manifest_text @ ''\<newline>'') False =
      (Inr True, \<lparr>nodes = nodes sample_world @
        [(CURSOR_PLUGIN_DIR, Dir),
         (CURSOR_PLUGIN_MANIFEST, File (sample_manifest_text @ ''\<newline>''))],
      events =
        [Mkdir CURSOR_PLUGIN_DIR,
         WriteText CURSOR_PLUGIN_MANIFEST (sample_manifest_text @ ''\<newline>'')]\<rparr>)"
    by (simp add: write_or_check_def sample_world_def world_of_def path_defs path_exists_def
        mkdir_parents_top is_dir_def create_dir_def write_text_def)
  have 2: "write_or_check \<lparr>nodes = nodes sample_world @
        [(CURSOR_PLUGIN_DIR, Dir),
         (CURSOR_PLUGIN_MANIFEST, File (sample_manifest_text @ ''\<newline>''))],
      events =
        [Mkdir CURSOR_PLUGIN_DIR,
         WriteText CURSOR_PLUGIN_MANIFEST (sample_manifest_text @ ''\<newline>'')]\<rparr>
        CURSOR_MCP_CONFIG (sample_mcp_text @ ''\<newline>'') False = (Inr True, sample_world_written)"
    by (simp add: write_or_check_def sample_world_written_def sample_world_def world_of_def
        path_defs path_exists_def mkdir_parents_root is_dir_def write_text_def)
  have m: "main sample_loads sample_dumps False sample_world = (Inr Wrote, sample_world_written)"
    by (simp add: main_def build_sample c r 1 2)
  from m write_mode_idempotent [OF m] show ?thesis by blast
qed

end
